theory Spec2Isabelle
  imports Main "HOL-Library.Sublist"
begin

section \<open>JavaScript values\<close>

text \<open>
  The values that flow through the session store and the render context are
  JSON-like JavaScript values. Numbers are modelled as integers (timestamps in
  milliseconds, durations in seconds); \<open>NaN\<close>, fractions, symbols and big integers are
  outside the model.
\<close>

datatype jsval =
    JUndefined
  | JNull
  | JBool bool
  | JNum int
  | JStr string
  | JArr "jsval list"
  | JObj "(string \<times> jsval) list"

datatype jstype = TUndefined | TObject | TBoolean | TNumber | TString | TFunction

text \<open>The \<open>typeof\<close> operator; \<open>typeof null\<close> is \<open>"object"\<close>.\<close>

fun typeof :: "jsval \<Rightarrow> jstype" where
  "typeof JUndefined = TUndefined"
| "typeof JNull = TObject"
| "typeof (JBool b) = TBoolean"
| "typeof (JNum n) = TNumber"
| "typeof (JStr s) = TString"
| "typeof (JArr xs) = TObject"
| "typeof (JObj kvs) = TObject"

text \<open>Truthiness, as tested by \<open>if (v)\<close> and \<open>!v\<close>.\<close>

fun truthy :: "jsval \<Rightarrow> bool" where
  "truthy JUndefined = False"
| "truthy JNull = False"
| "truthy (JBool b) = b"
| "truthy (JNum n) = (n \<noteq> 0)"
| "truthy (JStr s) = (s \<noteq> [])"
| "truthy (JArr xs) = True"
| "truthy (JObj kvs) = True"

section \<open>Session storage\<close>

text \<open>
  \<open>MemorySessionStorage\<close>: the private \<open>#store\<close> map from session id to the pair
  of payload and absolute expiry (milliseconds). \<open>Date.now()\<close> is the explicit
  argument \<open>now\<close>. Each method returns its result together with the map it leaves.
\<close>

type_synonym mem_store = "string \<rightharpoonup> (jsval \<times> int)"

definition MemorySessionStorage_get :: "int \<Rightarrow> string \<Rightarrow> mem_store \<Rightarrow> jsval \<times> mem_store" where
  "MemorySessionStorage_get now sid st =
     (case (case st sid of Some r \<Rightarrow> r | None \<Rightarrow> (JUndefined, 0)) of
        (data, expires) \<Rightarrow>
          if expires > 0 \<and> now > expires then (JUndefined, st(sid := None))
          else (data, st))"

definition MemorySessionStorage_set :: "string \<Rightarrow> jsval \<Rightarrow> int \<Rightarrow> mem_store \<Rightarrow> mem_store" where
  "MemorySessionStorage_set sid data expires st = st(sid \<mapsto> (data, expires))"

definition MemorySessionStorage_delete :: "string \<Rightarrow> mem_store \<Rightarrow> mem_store" where
  "MemorySessionStorage_delete sid st = st(sid := None)"

text \<open>
  The \<open>SessionStorage\<close> interface a session delegates to. A backend is three
  operations on some world \<open>'w\<close>; every operation receives the current time, since the
  clock is ambient for a backend.
\<close>

record 'w SessionStorage =
  storage_get :: "int \<Rightarrow> string \<Rightarrow> 'w \<Rightarrow> jsval \<times> 'w"
  storage_set :: "int \<Rightarrow> string \<Rightarrow> jsval \<Rightarrow> int \<Rightarrow> 'w \<Rightarrow> 'w"
  storage_delete :: "int \<Rightarrow> string \<Rightarrow> 'w \<Rightarrow> 'w"

text \<open>
  The world of a process: the map held by the module-level \<open>defaultSessionStorage\<close>
  (shared by every session constructed without an explicit storage) and the state
  behind storages passed in through the options.
\<close>

record 'b world =
  defaultStore :: mem_store
  backend :: 'b

definition defaultSessionStorage :: "'b world SessionStorage" where
  "defaultSessionStorage =
     \<lparr> storage_get = (\<lambda>now sid w.
          case MemorySessionStorage_get now sid (defaultStore w) of
            (v, st) \<Rightarrow> (v, w\<lparr>defaultStore := st\<rparr>)),
       storage_set = (\<lambda>now sid data expires w.
          w\<lparr>defaultStore := MemorySessionStorage_set sid data expires (defaultStore w)\<rparr>),
       storage_delete = (\<lambda>now sid w.
          w\<lparr>defaultStore := MemorySessionStorage_delete sid (defaultStore w)\<rparr>) \<rparr>"

section \<open>Sessions\<close>

record cookie_options =
  cookie_name :: "string option"
  cookie_attrs :: "(string \<times> string) list"

record 'w SessionOptions =
  opt_maxAge :: "int option"
  opt_cookie :: "cookie_options option"
  opt_storage :: "'w SessionStorage option"

record 'w SessionImpl =
  sid :: string
  options :: "'w SessionOptions"
  store :: jsval
  storage :: "'w SessionStorage"

text \<open>The constructor: \<open>options.storage ?? defaultSessionStorage\<close>; \<open>#store\<close> starts undefined.\<close>

definition SessionImpl_new :: "string \<Rightarrow> 'b world SessionOptions \<Rightarrow> 'b world SessionImpl" where
  "SessionImpl_new i opts =
     \<lparr> sid = i, options = opts, store = JUndefined,
       storage = (case opt_storage opts of Some s \<Rightarrow> s | None \<Rightarrow> defaultSessionStorage) \<rparr>"

definition SessionImpl_init :: "int \<Rightarrow> 'w SessionImpl \<Rightarrow> 'w \<Rightarrow> 'w SessionImpl \<times> 'w" where
  "SessionImpl_init now s w =
     (case storage_get (storage s) now (sid s) w of
        (v, w') \<Rightarrow> (s\<lparr>store := v\<rparr>, w'))"

text \<open>
  The argument of \<open>update\<close> at run time: a value, or a function from the previous
  payload to the next one.
\<close>

datatype update_arg = ArgValue jsval | ArgFunction "jsval \<Rightarrow> jsval"

fun typeof_arg :: "update_arg \<Rightarrow> jstype" where
  "typeof_arg (ArgValue v) = typeof v"
| "typeof_arg (ArgFunction f) = TFunction"

datatype error = Error string

definition maxAge_ms :: "'w SessionImpl \<Rightarrow> int" where
  "maxAge_ms s = 1000 * (case opt_maxAge (options s) of Some m \<Rightarrow> m | None \<Rightarrow> 1800)"

text \<open>
  How a call completes: it throws to its caller, or it returns a value. A promise is
  given by how it settles.
\<close>

datatype 'a promise = Fulfilled 'a | Rejected error

datatype 'a completion = Throws error | Returns 'a

text \<open>
  \<open>update\<close> is declared \<open>async\<close>: the call returns a promise, and the \<open>throw\<close> of the guard
  rejects that promise. The session and the world are returned as they are when the
  promise settles. (\<open>init\<close> and \<open>end\<close> are \<open>async\<close> too; their promises fulfil with no
  value, and only their effect is modelled.)
\<close>

definition SessionImpl_update ::
  "update_arg \<Rightarrow> int \<Rightarrow> 'w SessionImpl \<Rightarrow> 'w \<Rightarrow>
   unit promise completion \<times> 'w SessionImpl \<times> 'w" where
  "SessionImpl_update arg now s w =
     (if typeof_arg arg \<noteq> TObject \<and> typeof_arg arg \<noteq> TFunction
      then (Returns (Rejected (Error ''store must be a valid object or a function'')), s, w)
      else
        let nextStore = (case arg of ArgFunction f \<Rightarrow> f (store s) | ArgValue v \<Rightarrow> v);
            w' = storage_set (storage s) now (sid s) nextStore (now + maxAge_ms s) w
        in (Returns (Fulfilled ()), s\<lparr>store := nextStore\<rparr>, w'))"

definition SessionImpl_end :: "int \<Rightarrow> 'w SessionImpl \<Rightarrow> 'w \<Rightarrow> 'w SessionImpl \<times> 'w" where
  "SessionImpl_end now s w =
     (let w' = (if \<not> truthy (store s) then storage_delete (storage s) now (sid s) w else w)
      in (s\<lparr>store := JUndefined\<rparr>, w'))"

record response =
  status :: int
  headers :: "(string \<times> string) list"
  body :: string

text \<open>
  \<open>redirect\<close>: \<open>cookieHeader\<close> (from the helpers module) is a parameter; it receives the
  cookie name, the session id, the cookie options and the expiry in milliseconds.
\<close>

definition SessionImpl_redirect ::
  "(string \<Rightarrow> string \<Rightarrow> cookie_options option \<Rightarrow> int \<Rightarrow> string) \<Rightarrow>
   string \<Rightarrow> int \<Rightarrow> 'w SessionImpl \<Rightarrow> response" where
  "SessionImpl_redirect cookieHeader url now s =
     (let cookie = cookieHeader
            (case opt_cookie (options s) of
               None \<Rightarrow> ''session''
             | Some c \<Rightarrow> (case cookie_name c of None \<Rightarrow> ''session'' | Some n \<Rightarrow> n))
            (sid s)
            (opt_cookie (options s))
            (if store s = JUndefined then 0 else now + maxAge_ms s)
      in \<lparr> status = 302, headers = [(''Set-Cookie'', cookie), (''Location'', url)], body = [] \<rparr>)"

text \<open>The four public operations of a session, as one step on session and world.\<close>

datatype session_op = OpInit | OpUpdate update_arg | OpEnd | OpRedirect string

definition session_step ::
  "session_op \<Rightarrow> int \<Rightarrow> 'w SessionImpl \<Rightarrow> 'w \<Rightarrow> 'w SessionImpl \<times> 'w" where
  "session_step op now s w =
     (case op of
        OpInit \<Rightarrow> SessionImpl_init now s w
      | OpUpdate arg \<Rightarrow> snd (SessionImpl_update arg now s w)
      | OpEnd \<Rightarrow> SessionImpl_end now s w
      | OpRedirect url \<Rightarrow> (s, w))"

text \<open>A record is expired at \<open>now\<close>: the test of \<open>MemorySessionStorage.get\<close>.\<close>

definition expired :: "int \<Rightarrow> (jsval \<times> int) \<Rightarrow> bool" where
  "expired now r = (snd r > 0 \<and> now > snd r)"

section \<open>Concrete sessions\<close>

definition demo_options :: "unit world SessionOptions" where
  "demo_options = \<lparr> opt_maxAge = None, opt_cookie = None, opt_storage = None \<rparr>"

definition demo_world :: "unit world" where
  "demo_world = \<lparr> defaultStore = Map.empty, backend = () \<rparr>"

definition demo_payload :: jsval where
  "demo_payload = JObj [(''user'', JStr ''ann'')]"

definition demo_stored :: "unit world" where
  "demo_stored = \<lparr> defaultStore = [''S'' \<mapsto> (demo_payload, 0)], backend = () \<rparr>"

section \<open>Route matching\<close>

text \<open>
  A request carries its URL already parsed (\<open>new URL(req.url)\<close>), so that
  \<open>new Request(route.url.toString(), req)\<close> is the request with its URL replaced.
\<close>

type_synonym groups = "(string \<times> string) list"

record url =
  origin :: string
  pathname :: string
  searchParams :: groups

record request =
  req_url :: url
  req_headers :: "(string \<times> string) list"

text \<open>\<open>URLPatternResult\<close>: the named groups captured for host and pathname.\<close>

record URLPatternResult =
  host_groups :: groups
  pathname_groups :: groups

text \<open>
  \<open>IURLPattern\<close>: \<open>exec({ pathname })\<close>, with \<open>None\<close> for the falsy result of a pattern
  that does not match.
\<close>

type_synonym IURLPattern = "string \<Rightarrow> URLPatternResult option"

record RawURLPattern =
  raw_host :: "string option"
  raw_pathname :: string

record route_meta =
  meta_filename :: string
  meta_pattern :: RawURLPattern

text \<open>What a data fetcher returns once awaited: a \<open>Response\<close>, or any other value.\<close>

datatype fetch_result = IsResponse response | NotResponse jsval

text \<open>
  The \<open>data\<close> export of a route module. A field that is not a function is \<open>None\<close>: the
  code only asks \<open>typeof f === "function"\<close>. A fetcher that throws (or whose promise
  rejects) returns \<open>Inl\<close>.
\<close>

record 'c dataConfig =
  get :: "(request \<Rightarrow> 'c \<Rightarrow> error + fetch_result) option"
  all :: "(request \<Rightarrow> error + fetch_result) option"
  cacheTtl :: jsval

text \<open>
  A loaded route module: its default export and its \<open>data\<close> export, \<open>None\<close> when that
  export is not a plain object (\<open>util.isPlainObject\<close>).
\<close>

record ('c, 'd) route_module =
  mod_default :: 'd
  mod_data :: "'c dataConfig option"

text \<open>
  A \<open>Route\<close>: pattern, loader, meta. The loader takes no argument; it is modelled by
  the outcome of calling and awaiting it.
\<close>

type_synonym ('c, 'd) Route = "IURLPattern \<times> (error + ('c, 'd) route_module) \<times> route_meta"

text \<open>The object \<open>matchRoute\<close> returns when it does not return a \<open>Response\<close>.\<close>

record 'd RouteContext =
  ctx_url :: url
  moduleDefaultExport :: "'d option"
  filename :: "string option"
  data :: jsval
  dataExpires :: jsval

datatype 'd outcome = Thrown error | Resp response | Ctx "'d RouteContext"

text \<open>The calls \<open>matchRoute\<close> makes to a route's functions, in the order it makes them.\<close>

datatype 'c event = LoadCall route_meta | AllCall request | GetCall request 'c

text \<open>
  Functions of modules outside these files, taken as parameters: \<open>util.cleanPath\<close>,
  \<open>util.appendUrlParams\<close>, and the \<open>json()\<close> method of a \<open>Response\<close>.
\<close>

record env =
  cleanPath :: "string \<Rightarrow> string"
  appendUrlParams :: "url \<Rightarrow> groups \<Rightarrow> url"
  json :: "response \<Rightarrow> error + jsval"

definition url_only :: "url \<Rightarrow> 'd RouteContext" where
  "url_only u =
     \<lparr> ctx_url = u, moduleDefaultExport = None, filename = None,
       data = JUndefined, dataExpires = JUndefined \<rparr>"

definition empty_dataConfig :: "'c dataConfig" where
  "empty_dataConfig = \<lparr> get = None, all = None, cacheTtl = JUndefined \<rparr>"

text \<open>Lines 208--217: the per-request fetcher, after the collective one let it run.\<close>

definition call_fetcher ::
  "env \<Rightarrow> (request \<Rightarrow> 'c \<Rightarrow> error + fetch_result) \<Rightarrow> request \<Rightarrow> 'c \<Rightarrow>
   'd RouteContext \<Rightarrow> 'c event list \<times> 'd outcome" where
  "call_fetcher env fetcher request ctx route =
     (case fetcher request ctx of
        Inl e \<Rightarrow> ([GetCall request ctx], Thrown e)
      | Inr (NotResponse v) \<Rightarrow> ([GetCall request ctx], Ctx route)
      | Inr (IsResponse res) \<Rightarrow>
          if status res \<noteq> 200 then ([GetCall request ctx], Resp res)
          else (case json env res of
                  Inl e \<Rightarrow> ([GetCall request ctx], Thrown e)
                | Inr v \<Rightarrow> ([GetCall request ctx], Ctx (route\<lparr>data := v\<rparr>))))"

text \<open>Lines 195--218: everything under \<open>if (typeof fetcher === "function")\<close>.\<close>

definition call_fetchers ::
  "env \<Rightarrow> request \<Rightarrow> 'c \<Rightarrow> 'c dataConfig \<Rightarrow> 'd RouteContext \<Rightarrow>
   'c event list \<times> 'd outcome" where
  "call_fetchers env req ctx dc route =
     (case get dc of
        None \<Rightarrow> ([], Ctx route)
      | Some fetcher \<Rightarrow>
          let request = req\<lparr>req_url := ctx_url route\<rparr> in
          (case all dc of
             None \<Rightarrow> call_fetcher env fetcher request ctx route
           | Some allFetcher \<Rightarrow>
               (case allFetcher request of
                  Inl e \<Rightarrow> ([AllCall request], Thrown e)
                | Inr (IsResponse res) \<Rightarrow> ([AllCall request], Resp res)
                | Inr (NotResponse v) \<Rightarrow>
                    (case call_fetcher env fetcher request ctx route of
                       (tr, out) \<Rightarrow> (AllCall request # tr, out)))))"

text \<open>
  The \<open>for\<close> loop over the table. Its body ends in \<open>return route\<close> outside the
  \<open>if (ret)\<close>, so the first iteration always returns and the rest of the table is
  never read; the first equation is the \<open>return { url }\<close> after the loop.
\<close>

fun route_loop ::
  "env \<Rightarrow> request \<Rightarrow> 'c \<Rightarrow> url \<Rightarrow> string \<Rightarrow> ('c, 'd) Route list \<Rightarrow>
   'c event list \<times> 'd outcome" where
  "route_loop env req ctx u p [] = ([], Ctx (url_only u))"
| "route_loop env req ctx u p ((pattern, load, meta) # rest) =
     (case pattern p of
        None \<Rightarrow> ([], Ctx (url_only u))
      | Some ret \<Rightarrow>
          (case load of
             Inl e \<Rightarrow> ([LoadCall meta], Thrown e)
           | Inr m \<Rightarrow>
               let dc = (case mod_data m of Some d \<Rightarrow> d | None \<Rightarrow> empty_dataConfig);
                   route = \<lparr> ctx_url = appendUrlParams env u (pathname_groups ret),
                             moduleDefaultExport = Some (mod_default m),
                             filename = Some (meta_filename meta),
                             data = JUndefined,
                             dataExpires = cacheTtl dc \<rparr>
               in (case call_fetchers env req ctx dc route of
                     (tr, out) \<Rightarrow> (LoadCall meta # tr, out))))"

definition matchRoute ::
  "env \<Rightarrow> request \<Rightarrow> 'c \<Rightarrow> ('c, 'd) Route list \<Rightarrow> 'c event list \<times> 'd outcome" where
  "matchRoute env req ctx routes =
     (let u = req_url req in
      if length routes > 0
      then route_loop env req ctx u (cleanPath env (pathname u)) routes
      else ([], Ctx (url_only u)))"

section \<open>The document rewriter\<close>

text \<open>
  \<open>HTMLRewriter\<close> is the streaming rewriter of the external \<open>lol_html\<close> package. The
  model follows its documented element API. The base document is given as the tree of
  tokens its parser reads: text (anything that is not an element) and elements with
  their attributes and content.
\<close>

datatype node = Text string | Element string "(string \<times> string) list" "node list"

text \<open>
  An \<open>Element\<close> as a handler sees it: the start tag, and the mutations recorded so far.
  \<open>before\<close> and \<open>append\<close> add after the content inserted earlier, \<open>after\<close> adds in front of
  it; \<open>replace\<close> and \<open>remove\<close> drop the element with its content, and what was inserted
  before and after it stays. Every call of the source passes \<open>{ html: true }\<close>: the
  content is inserted raw.
\<close>

record element =
  tagName :: string
  attributes :: "(string \<times> string) list"
  content_before :: string
  content_after :: string
  content_append :: string
  replacement :: string
  removed :: bool

definition new_element :: "string \<Rightarrow> (string \<times> string) list \<Rightarrow> element" where
  "new_element tag attrs =
     \<lparr> tagName = tag, attributes = attrs, content_before = [], content_after = [],
       content_append = [], replacement = [], removed = False \<rparr>"

definition el_before :: "string \<Rightarrow> element \<Rightarrow> element" where
  "el_before c el = el\<lparr>content_before := content_before el @ c\<rparr>"

definition el_after :: "string \<Rightarrow> element \<Rightarrow> element" where
  "el_after c el = el\<lparr>content_after := c @ content_after el\<rparr>"

definition el_append :: "string \<Rightarrow> element \<Rightarrow> element" where
  "el_append c el = el\<lparr>content_append := content_append el @ c\<rparr>"

definition el_replace :: "string \<Rightarrow> element \<Rightarrow> element" where
  "el_replace c el = el\<lparr>replacement := c, removed := True\<rparr>"

definition el_remove :: "element \<Rightarrow> element" where
  "el_remove el = el\<lparr>removed := True\<rparr>"

definition getAttribute :: "string \<Rightarrow> element \<Rightarrow> string option" where
  "getAttribute name el = map_of (attributes el) name"

definition setAttribute :: "string \<Rightarrow> string \<Rightarrow> element \<Rightarrow> element" where
  "setAttribute name v el =
     el\<lparr>attributes :=
          (if name \<in> fst ` set (attributes el)
           then map (\<lambda>(k, x). if k = name then (k, v) else (k, x)) (attributes el)
           else attributes el @ [(name, v)])\<rparr>"

text \<open>The per-render flags of \<open>scriptHandler\<close> and \<open>commonHandler\<close>.\<close>

record handler_state =
  nomoduleInserted :: bool
  handled :: bool

type_synonym handler = "handler_state \<Rightarrow> element \<Rightarrow> element \<times> handler_state"

text \<open>
  Platform functions the handlers and \<open>fetch\<close> call: \<open>JSON.stringify\<close> (on a value, and
  on the list of the routes' meta objects), the conversion of a number in a template
  literal, \<open>toLocalPath(getAlephPkgUri())\<close>, and \<open>Deno.lstat("./index.html")\<close> read as the
  UTC string of the modification time.
\<close>

record platform =
  JSON_stringify :: "jsval \<Rightarrow> string"
  JSON_stringify_metas :: "route_meta list \<Rightarrow> string"
  number_toString :: "int \<Rightarrow> string"
  alephPkgUri :: string
  lstat_mtime :: "error + string option"

definition startsWith :: "string \<Rightarrow> string \<Rightarrow> bool" where
  "startsWith s p = (take (length p) s = p)"

definition endsWith :: "string \<Rightarrow> string \<Rightarrow> bool" where
  "endsWith s p = (length p \<le> length s \<and> drop (length s - length p) s = p)"

subsection \<open>The handlers of \<open>fetch\<close>\<close>

definition expiresAttr :: "jsval \<Rightarrow> string" where
  \<open>expiresAttr ttl = (if truthy ttl then '' data-expires="route.dataExpires"'' else [])\<close>

definition data_script :: "platform \<Rightarrow> 'd RouteContext \<Rightarrow> string" where
  \<open>data_script P route =
     ''<script id="aleph-ssr-data" type="application/json"'' @ expiresAttr (dataExpires route)
       @ ''>'' @ JSON_stringify P (data route) @ ''</script>''\<close>

definition module_script :: "platform \<Rightarrow> string \<Rightarrow> string" where
  \<open>module_script P f =
     ''<script type="module">import e from '' @ JSON_stringify P (JStr f)
       @ '';window.__ssrModuleDefaultExport=e;</script>''\<close>

definition ssr_head_handler :: "platform \<Rightarrow> string list \<Rightarrow> 'd RouteContext \<Rightarrow> handler" where
  "ssr_head_handler P headCollection route st el =
     (let el1 = foldl (\<lambda>e tag. el_before tag e) el headCollection;
          el2 = (if truthy (data route) then el_before (data_script P route) el1 else el1);
          el3 = (case filename route of
                   None \<Rightarrow> el2
                 | Some f \<Rightarrow> if f \<noteq> [] then el_before (module_script P f) el2 else el2)
      in (el_remove el3, st))"

definition ssr_body_handler :: "string \<Rightarrow> handler" where
  "ssr_body_handler ssrOutput st el = (el_replace ssrOutput el, st)"

definition linkHandler :: "platform \<Rightarrow> bool \<Rightarrow> handler" where
  \<open>linkHandler P isDev st el =
     (case getAttribute ''href'' el of
        None \<Rightarrow> (el, st)
      | Some href0 \<Rightarrow>
          if href0 = [] then (el, st)
          else
            let href = (if startsWith href0 ''./'' then drop 1 href0 else href0);
                el1 = setAttribute ''href'' href el
            in if endsWith href ''.css'' \<and> startsWith href ''/'' \<and> isDev
               then (el_after (''<script type="module">import hot from "'' @ alephPkgUri P
                        @ ''framework/core/hmr.ts";hot('' @ JSON_stringify P (JStr (''.'' @ href))
                        @ '').accept();</script>'') el1, st)
               else (el1, st))\<close>

definition scriptHandler :: "platform \<Rightarrow> handler" where
  \<open>scriptHandler P st el =
     (let src = getAttribute ''src'' el;
          type = getAttribute ''type'' el;
          insert_it = (type = Some ''module'' \<and> \<not> nomoduleInserted st);
          el1 = (if insert_it
                 then el_after (''<script nomodule src="'' @ alephPkgUri P
                        @ ''lib/nomodule.js"></script>'') el
                 else el);
          st1 = (if insert_it then st\<lparr>nomoduleInserted := True\<rparr> else st);
          el2 = (case src of
                   None \<Rightarrow> el1
                 | Some s \<Rightarrow> if startsWith s ''./'' then setAttribute ''src'' (drop 1 s) el1 else el1)
      in (el2, st1))\<close>

definition commonHandler :: "platform \<Rightarrow> ('c, 'd) Route list \<Rightarrow> bool \<Rightarrow> handler" where
  \<open>commonHandler P routes isDev st el =
     (if handled st then (el, st)
      else
        let st1 = st\<lparr>handled := True\<rparr>;
            el1 = (if length routes > 0
                   then el_append (''<script id="aleph-routes" type="application/json">''
                          @ JSON_stringify_metas P (map (\<lambda>r. snd (snd r)) routes)
                          @ ''</script>'') el
                   else el);
            el2 = (if isDev
                   then el_append (''<script type="module">import hot from "'' @ alephPkgUri P
                          @ ''framework/core/hmr.ts";hot("./index.html").decline();</script>'') el1
                   else el1)
        in (el2, st1))\<close>

subsection \<open>The engine\<close>

text \<open>
  Handlers are registered by \<open>rewriter.on(selector, handler)\<close>; every selector of the
  source is a tag name. An element is given to the handlers registered for its tag, in
  the order of registration.
\<close>

fun dispatch :: "(string \<times> handler) list \<Rightarrow> handler" where
  "dispatch [] st el = (el, st)"
| "dispatch ((selector, h) # regs) st el =
     (if selector = tagName el
      then (case h st el of (el', st') \<Rightarrow> dispatch regs st' el')
      else dispatch regs st el)"

definition void_tags :: "string list" where
  "void_tags = [''area'', ''base'', ''br'', ''col'', ''embed'', ''hr'', ''img'', ''input'',
                ''link'', ''meta'', ''source'', ''track'', ''wbr'']"

definition start_tag :: "element \<Rightarrow> string" where
  \<open>start_tag el =
     ''<'' @ tagName el
       @ concat (map (\<lambda>(k, v). '' '' @ k @ ''="'' @ v @ ''"'') (attributes el)) @ ''>''\<close>

definition end_tag :: "element \<Rightarrow> string" where
  "end_tag el = (if tagName el \<in> set void_tags then [] else ''</'' @ tagName el @ ''>'')"

text \<open>
  Serialization in document order. Text passes through unchanged. An element that a
  handler removed or replaced contributes what was inserted before it, its replacement
  and what was inserted after it. The engine still reads its content: the handlers run
  on the elements inside it, so the flags of \<open>scriptHandler\<close> and \<open>commonHandler\<close> change
  as for any other element, but nothing of that content reaches the output.
\<close>

fun rewrite_node :: "(string \<times> handler) list \<Rightarrow> handler_state \<Rightarrow> node \<Rightarrow> string \<times> handler_state"
  and rewrite_nodes :: "(string \<times> handler) list \<Rightarrow> handler_state \<Rightarrow> node list \<Rightarrow> string \<times> handler_state"
where
  "rewrite_node regs st (Text s) = (s, st)"
| "rewrite_node regs st (Element tag attrs cs) =
     (case dispatch regs st (new_element tag attrs) of
        (el, st1) \<Rightarrow>
          (case rewrite_nodes regs st1 cs of
             (inner, st2) \<Rightarrow>
               if removed el
               then (content_before el @ replacement el @ content_after el, st2)
               else (content_before el @ start_tag el @ inner @ content_append el
                       @ end_tag el @ content_after el, st2)))"
| "rewrite_nodes regs st [] = ([], st)"
| "rewrite_nodes regs st (n # ns) =
     (case rewrite_node regs st n of
        (out1, st1) \<Rightarrow>
          (case rewrite_nodes regs st1 ns of
             (out2, st2) \<Rightarrow> (out1 @ out2, st2)))"

subsection \<open>\<open>fetch\<close>\<close>

text \<open>
  \<open>options.indexHtml\<close> is given as the token tree; the SSR callback is modelled by what it
  returns together with the head fragments it pushed to \<open>headCollection\<close>. The one-time
  initialization of the rewriter engine (lines 22--25) and the logging in the \<open>catch\<close>
  clause do not bear on the response and are left out. The \<open>headers\<close> of a response are
  the headers the code passes to the constructor.
\<close>

record ('c, 'd) RenderOptions =
  indexHtml :: "node list"
  routes :: "('c, 'd) Route list"
  isDev :: bool
  ssrHandler :: "('d RouteContext \<Rightarrow> error + string option \<times> string list) option"

definition first_line :: "string \<Rightarrow> string" where
  "first_line s = takeWhile (\<lambda>c. c \<noteq> CHR 0x0A) s"

text \<open>The \<open>catch\<close> clause: the 500 response.\<close>

definition error_response :: "bool \<Rightarrow> error \<Rightarrow> response" where
  "error_response dev err =
     (case err of Error message \<Rightarrow>
        \<lparr> status = 500, headers = [],
          body = (if dev then first_line message else ''Internal Server Error'') \<rparr>)"

definition common_regs :: "platform \<Rightarrow> ('c, 'd) Route list \<Rightarrow> bool \<Rightarrow> (string \<times> handler) list" where
  "common_regs P rs dev =
     [(''link'', linkHandler P dev), (''script'', scriptHandler P),
      (''head'', commonHandler P rs dev), (''body'', commonHandler P rs dev)]"

definition ssr_regs :: "platform \<Rightarrow> string list \<Rightarrow> 'd RouteContext \<Rightarrow> string \<Rightarrow> (string \<times> handler) list" where
  "ssr_regs P headCollection route ssrOutput =
     [(''ssr-head'', ssr_head_handler P headCollection route),
      (''ssr-body'', ssr_body_handler ssrOutput)]"

definition initial_state :: handler_state where
  "initial_state = \<lparr> nomoduleInserted = False, handled = False \<rparr>"

text \<open>Lines 101--164: the common handlers, the write, and the 200 response.\<close>

definition finish ::
  "platform \<Rightarrow> ('c, 'd) RenderOptions \<Rightarrow> (string \<times> string) list \<Rightarrow>
   (string \<times> handler) list \<Rightarrow> response" where
  "finish P opts hdrs regs =
     \<lparr> status = 200, headers = hdrs,
       body = fst (rewrite_nodes (regs @ common_regs P (routes opts) (isDev opts))
                     initial_state (indexHtml opts)) \<rparr>"

text \<open>Lines 89--99: the path taken when \<open>withSSR\<close> is still false.\<close>

definition static_path ::
  "platform \<Rightarrow> request \<Rightarrow> ('c, 'd) RenderOptions \<Rightarrow> (string \<times> string) list \<Rightarrow> response" where
  "static_path P req opts hdrs =
     (case lstat_mtime P of
        Inl e \<Rightarrow> error_response (isDev opts) e
      | Inr None \<Rightarrow>
          finish P opts (hdrs @ [(''Cache-Control'', ''public, max-age=0, must-revalidate'')]) []
      | Inr (Some mtimeUTC) \<Rightarrow>
          if map_of (req_headers req) ''If-Modified-Since'' = Some mtimeUTC
          then \<lparr> status = 304, headers = [], body = [] \<rparr>
          else finish P opts
                 (hdrs @ [(''Last-Modified'', mtimeUTC),
                          (''Cache-Control'', ''public, max-age=0, must-revalidate'')]) [])"

definition cache_control :: "platform \<Rightarrow> jsval \<Rightarrow> string" where
  "cache_control P ttl =
     (case ttl of
        JNum n \<Rightarrow> ''public, max-age='' @ number_toString P n
      | _ \<Rightarrow> ''public, max-age=0, must-revalidate'')"

definition fetch ::
  "env \<Rightarrow> platform \<Rightarrow> request \<Rightarrow> 'c \<Rightarrow> ('c, 'd) RenderOptions \<Rightarrow> response" where
  "fetch env P req ctx opts =
     (let hdrs = [(''Content-Type'', ''text/html; charset=utf-8'')] in
      case ssrHandler opts of
        None \<Rightarrow> static_path P req opts hdrs
      | Some h \<Rightarrow>
          (case snd (matchRoute env req ctx (routes opts)) of
             Thrown e \<Rightarrow> error_response (isDev opts) e
           | Resp r \<Rightarrow> r
           | Ctx route \<Rightarrow>
               (case h route of
                  Inl e \<Rightarrow> error_response (isDev opts) e
                | Inr (None, headCollection) \<Rightarrow> static_path P req opts hdrs
                | Inr (Some ssrOutput, headCollection) \<Rightarrow>
                    finish P opts
                      (hdrs @ [(''Cache-Control'', cache_control P (dataExpires route))])
                      (ssr_regs P headCollection route ssrOutput))))"

section \<open>Concrete routes\<close>

definition demo_env :: env where
  \<open>demo_env =
     \<lparr> cleanPath = (\<lambda>p. p),
       appendUrlParams = (\<lambda>u g. u\<lparr>searchParams := searchParams u @ g\<rparr>),
       json = (\<lambda>r. if body r = ''{"title":"Hi"}'' then Inr (JObj [(''title'', JStr ''Hi'')])
                   else if body r = ''0'' then Inr (JNum 0)
                   else Inl (Error ''Unexpected token'')) \<rparr>\<close>

definition demo_request :: request where
  "demo_request =
     \<lparr> req_url = \<lparr> origin = ''http://localhost'', pathname = ''/posts/42'', searchParams = [] \<rparr>,
       req_headers = [] \<rparr>"

definition index_route :: "(unit, string) Route" where
  "index_route =
     ((\<lambda>p. if p = ''/'' then Some \<lparr> host_groups = [], pathname_groups = [] \<rparr> else None),
      Inr \<lparr> mod_default = ''Index'', mod_data = None \<rparr>,
      \<lparr> meta_filename = ''./routes/index.tsx'',
        meta_pattern = \<lparr> raw_host = None, raw_pathname = ''/'' \<rparr> \<rparr>)"

definition posts_pattern :: IURLPattern where
  "posts_pattern p =
     (if take 7 p = ''/posts/'' \<and> drop 7 p \<noteq> []
      then Some \<lparr> host_groups = [], pathname_groups = [(''id'', drop 7 p)] \<rparr>
      else None)"

definition posts_meta :: route_meta where
  "posts_meta =
     \<lparr> meta_filename = ''./routes/posts/$id.tsx'',
       meta_pattern = \<lparr> raw_host = None, raw_pathname = ''/posts/:id'' \<rparr> \<rparr>"

definition posts_route :: "unit dataConfig option \<Rightarrow> (unit, string) Route" where
  "posts_route dc = (posts_pattern, Inr \<lparr> mod_default = ''Post'', mod_data = dc \<rparr>, posts_meta)"

definition posts_url :: url where
  "posts_url = \<lparr> origin = ''http://localhost'', pathname = ''/posts/42'',
                 searchParams = [(''id'', ''42'')] \<rparr>"

definition posts_context :: "jsval \<Rightarrow> jsval \<Rightarrow> string RouteContext" where
  "posts_context d ttl =
     \<lparr> ctx_url = posts_url, moduleDefaultExport = Some ''Post'',
       filename = Some ''./routes/posts/$id.tsx'', data = d, dataExpires = ttl \<rparr>"





definition json_response :: "string \<Rightarrow> response" where
  "json_response b = \<lparr> status = 200, headers = [(''Content-Type'', ''application/json'')], body = b \<rparr>"

definition plain_loader :: "unit dataConfig" where
  "plain_loader = \<lparr> get = Some (\<lambda>r c. Inr (NotResponse (JObj [(''title'', JStr ''Hi'')]))),
                    all = None, cacheTtl = JUndefined \<rparr>"

definition response_loader :: "string \<Rightarrow> jsval \<Rightarrow> unit dataConfig" where
  "response_loader b ttl =
     \<lparr> get = Some (\<lambda>r c. Inr (IsResponse (json_response b))), all = None, cacheTtl = ttl \<rparr>"

section \<open>Notions used to state the properties of the route matcher\<close>

text \<open>The context built for a matching first entry, before any fetcher ran.\<close>

definition matched_context ::
  "env \<Rightarrow> request \<Rightarrow> URLPatternResult \<Rightarrow> ('c, 'd) route_module \<Rightarrow> route_meta \<Rightarrow> 'd RouteContext" where
  "matched_context env req ret m meta =
     \<lparr> ctx_url = appendUrlParams env (req_url req) (pathname_groups ret),
       moduleDefaultExport = Some (mod_default m),
       filename = Some (meta_filename meta),
       data = JUndefined,
       dataExpires = cacheTtl (case mod_data m of Some d \<Rightarrow> d | None \<Rightarrow> empty_dataConfig) \<rparr>"

definition derived_request :: "env \<Rightarrow> request \<Rightarrow> URLPatternResult \<Rightarrow> request" where
  "derived_request env req ret =
     req\<lparr>req_url := appendUrlParams env (req_url req) (pathname_groups ret)\<rparr>"

section \<open>Notions used to state the properties of the rewriter\<close>

text \<open>What the head-marker handler inserts before the marker.\<close>

definition head_insertion :: "platform \<Rightarrow> string list \<Rightarrow> 'd RouteContext \<Rightarrow> string" where
  "head_insertion P headCollection route =
     concat headCollection
       @ (if truthy (data route) then data_script P route else [])
       @ (case filename route of
            None \<Rightarrow> []
          | Some f \<Rightarrow> if f \<noteq> [] then module_script P f else [])"


section \<open>A concrete render\<close>

fun decimal :: "nat \<Rightarrow> string" where
  "decimal n =
     (if n < 10 then [''0123456789'' ! n]
      else decimal (n div 10) @ [''0123456789'' ! (n mod 10)])"

declare decimal.simps [simp del]

definition demo_number :: "int \<Rightarrow> string" where
  "demo_number n = (if n < 0 then ''-'' @ decimal (nat (- n)) else decimal (nat n))"

text \<open>
  \<open>JSON.stringify\<close> on the values the concrete renders use: strings without characters
  to escape, integers, and objects with one string field.
\<close>

fun demo_stringify :: "jsval \<Rightarrow> string" where
  \<open>demo_stringify (JStr s) = ''"'' @ s @ ''"''\<close>
| \<open>demo_stringify (JNum n) = demo_number n\<close>
| \<open>demo_stringify (JObj [(k, JStr s)]) = ''{"'' @ k @ ''":"'' @ s @ ''"}''\<close>
| \<open>demo_stringify v = ''null''\<close>

fun commas :: "string list \<Rightarrow> string" where
  "commas [] = []"
| "commas [x] = x"
| "commas (x # y # ys) = x @ '','' @ commas (y # ys)"

definition demo_stringify_metas :: "route_meta list \<Rightarrow> string" where
  \<open>demo_stringify_metas ms =
     ''['' @ commas (map (\<lambda>m. ''{"filename":"'' @ meta_filename m @ ''","pattern":{''
                 @ (case raw_host (meta_pattern m) of
                      None \<Rightarrow> []
                    | Some h \<Rightarrow> ''"host":"'' @ h @ ''",'')
                 @ ''"pathname":"'' @ raw_pathname (meta_pattern m) @ ''"}}'') ms) @ '']''\<close>

definition demo_platform :: platform where
  "demo_platform =
     \<lparr> JSON_stringify = demo_stringify, JSON_stringify_metas = demo_stringify_metas,
       number_toString = demo_number, alephPkgUri = ''/-/deno.land/x/aleph/'',
       lstat_mtime = Inr None \<rparr>"

definition demo_document :: "node list" where
  "demo_document =
     [Element ''html'' []
        [Element ''head'' [] [Element ''ssr-head'' [] []],
         Element ''body'' [] [Element ''ssr-body'' [] []]]]"

definition render_options :: "unit dataConfig \<Rightarrow> (unit, string) RenderOptions" where
  "render_options dc =
     \<lparr> indexHtml = demo_document, routes = [posts_route (Some dc)], isDev = False,
       ssrHandler = Some (\<lambda>r. Inr (Some ''<article>Hi</article>'', [''<title>Hi</title>''])) \<rparr>"

section \<open>Properties of the session storage\<close>

lemma get_absent:
  "st k = None \<Longrightarrow> MemorySessionStorage_get now k st = (JUndefined, st)"
  by (simp add: MemorySessionStorage_get_def)

lemma get_live:
  "st k = Some (d, e) \<Longrightarrow> e \<le> 0 \<or> now \<le> e \<Longrightarrow> MemorySessionStorage_get now k st = (d, st)"
  by (auto simp add: MemorySessionStorage_get_def)

lemma get_expired:
  "st k = Some (d, e) \<Longrightarrow> 0 < e \<Longrightarrow> e < now \<Longrightarrow>
   MemorySessionStorage_get now k st = (JUndefined, st(k := None))"
  by (simp add: MemorySessionStorage_get_def)

lemma get_frame:
  "k' \<noteq> k \<Longrightarrow> snd (MemorySessionStorage_get now k st) k' = st k'"
  by (simp add: MemorySessionStorage_get_def split: option.split prod.split)

lemma get_result:
  "fst (MemorySessionStorage_get now k st) =
     (case st k of
        None \<Rightarrow> JUndefined
      | Some (d, e) \<Rightarrow> if e \<le> 0 \<or> now \<le> e then d else JUndefined)"
  by (auto simp add: MemorySessionStorage_get_def split: option.split)

lemma get_store:
  "snd (MemorySessionStorage_get now k st) =
     (case st k of
        None \<Rightarrow> st
      | Some (d, e) \<Rightarrow> if 0 < e \<and> e < now then st(k := None) else st)"
  by (auto simp add: MemorySessionStorage_get_def split: option.split)

text \<open>
  Claim C5. For the default in-memory storage, \<open>get\<close> returns the stored payload exactly
  when a record for the id exists whose expiry is at most 0 or not yet strictly passed by
  the current time, and returns undefined otherwise. The map it leaves differs from the one
  it found only when the record's expiry is positive and in the past: then that record is
  deleted. No other record is touched by \<open>get\<close>, \<open>set\<close> or \<open>delete\<close>, whatever its expiry:
  there is no sweep.
\<close>

theorem memory_get_lazy_expiry:
  "fst (MemorySessionStorage_get now k st) =
     (case st k of
        None \<Rightarrow> JUndefined
      | Some (d, e) \<Rightarrow> if e \<le> 0 \<or> now \<le> e then d else JUndefined)
   \<and> snd (MemorySessionStorage_get now k st) =
     (case st k of
        None \<Rightarrow> st
      | Some (d, e) \<Rightarrow> if 0 < e \<and> e < now then st(k := None) else st)
   \<and> (\<forall>k'. k' \<noteq> k \<longrightarrow>
          snd (MemorySessionStorage_get now k st) k' = st k'
        \<and> MemorySessionStorage_set k d' e' st k' = st k'
        \<and> MemorySessionStorage_delete k st k' = st k')"
proof -
  have "\<forall>k'. k' \<noteq> k \<longrightarrow>
          snd (MemorySessionStorage_get now k st) k' = st k'
        \<and> MemorySessionStorage_set k d' e' st k' = st k'
        \<and> MemorySessionStorage_delete k st k' = st k'"
    by (simp add: get_frame MemorySessionStorage_set_def MemorySessionStorage_delete_def)
  then show ?thesis
    using get_result [of now k st] get_store [of now k st] by blast
qed

theorem memory_get_lazy_expiry_witness:
  "fst (MemorySessionStorage_get 200 ''a'' [''a'' \<mapsto> (JObj [], 100), ''b'' \<mapsto> (JNull, 50)]) = JUndefined
   \<and> snd (MemorySessionStorage_get 200 ''a'' [''a'' \<mapsto> (JObj [], 100), ''b'' \<mapsto> (JNull, 50)]) ''a'' = None
   \<and> snd (MemorySessionStorage_get 200 ''a'' [''a'' \<mapsto> (JObj [], 100), ''b'' \<mapsto> (JNull, 50)]) ''b''
        = Some (JNull, 50)
   \<and> fst (MemorySessionStorage_get 100 ''a'' [''a'' \<mapsto> (JObj [], 100), ''b'' \<mapsto> (JNull, 50)]) = JObj []"
  using memory_get_lazy_expiry [of 200 "''a''" "[''a'' \<mapsto> (JObj [], 100), ''b'' \<mapsto> (JNull, 50)]"]
        memory_get_lazy_expiry [of 100 "''a''" "[''a'' \<mapsto> (JObj [], 100), ''b'' \<mapsto> (JNull, 50)]"]
  by simp

lemma default_set_get:
  assumes "storage s = defaultSessionStorage" and "storage s' = defaultSessionStorage"
    and "sid s' = sid s" and "e \<le> 0 \<or> t2 \<le> e"
  shows "fst (storage_get (storage s') t2 (sid s')
            (storage_set (storage s) t1 (sid s) v e w)) = v"
  using assms
  by (simp add: defaultSessionStorage_def MemorySessionStorage_set_def get_live split: prod.split)

text \<open>
  Claim C3. \<open>update(payload)\<close> with an object payload on a session backed by the default
  storage returns a promise that fulfils, and persists the payload with expiry now + max-age; a new session
  object constructed with the same id and the default storage, after \<open>init()\<close> at a time
  at which that expiry has not passed, caches a payload equal to \<open>payload\<close>.
\<close>

theorem session_round_trip:
  assumes "typeof payload = TObject"
      and "storage s = defaultSessionStorage"
      and "opt_storage opts' = None"
      and "SessionImpl_update (ArgValue payload) t1 s w = (r, s', w')"
      and "t1 + maxAge_ms s \<le> 0 \<or> t2 \<le> t1 + maxAge_ms s"
  shows "r = Returns (Fulfilled ())
     \<and> defaultStore w' (sid s) = Some (payload, t1 + maxAge_ms s)
     \<and> store (fst (SessionImpl_init t2 (SessionImpl_new (sid s) opts') w')) = payload"
proof -
  from assms(1,4) have r: "r = Returns (Fulfilled ())"
    and w': "w' = storage_set (storage s) t1 (sid s) payload (t1 + maxAge_ms s) w"
    by (simp_all add: SessionImpl_update_def Let_def)
  let ?n = "SessionImpl_new (sid s) opts'"
  have n: "storage ?n = defaultSessionStorage" "sid ?n = sid s"
    using assms(3) by (simp_all add: SessionImpl_new_def)
  have persisted: "defaultStore w' (sid s) = Some (payload, t1 + maxAge_ms s)"
    using assms(2) by (simp add: w' defaultSessionStorage_def MemorySessionStorage_set_def)
  have "fst (storage_get (storage ?n) t2 (sid ?n) w') = payload"
    unfolding w' using assms(2) n assms(5) by (rule default_set_get)
  then have "store (fst (SessionImpl_init t2 ?n w')) = payload"
    by (cases "storage_get (storage ?n) t2 (sid ?n) w'") (simp add: SessionImpl_init_def)
  with r persisted show ?thesis by simp
qed

text \<open>
  Claim C4, as stated, fails in two ways. \<open>update\<close> is \<open>async\<close>: for the argument \<open>5\<close> the
  call does not throw, it returns a promise that is rejected with the validation error.
  And \<open>null\<close>, which is not an object, has \<open>typeof null === "object"\<close> and passes the guard:
  the promise fulfils, the persisted record is overwritten with \<open>null\<close> and so is the
  cached payload.
\<close>

theorem update_not_synchronous_counterexample:
  "SessionImpl_update (ArgValue (JNum 5)) 5
       ((SessionImpl_new ''S'' demo_options)\<lparr>store := demo_payload\<rparr>) demo_stored
     = (Returns (Rejected (Error ''store must be a valid object or a function'')),
        (SessionImpl_new ''S'' demo_options)\<lparr>store := demo_payload\<rparr>, demo_stored)
   \<and> fst (SessionImpl_update (ArgValue JNull) 5
       ((SessionImpl_new ''S'' demo_options)\<lparr>store := demo_payload\<rparr>) demo_stored)
     = Returns (Fulfilled ())
   \<and> store (fst (snd (SessionImpl_update (ArgValue JNull) 5
       ((SessionImpl_new ''S'' demo_options)\<lparr>store := demo_payload\<rparr>) demo_stored)))
     = JNull
   \<and> defaultStore (snd (snd (SessionImpl_update (ArgValue JNull) 5
       ((SessionImpl_new ''S'' demo_options)\<lparr>store := demo_payload\<rparr>) demo_stored))) ''S''
     = Some (JNull, 1800005)
   \<and> defaultStore demo_stored ''S'' = Some (demo_payload, 0)"
  by (simp add: SessionImpl_update_def SessionImpl_new_def demo_options_def demo_stored_def
        defaultSessionStorage_def MemorySessionStorage_set_def maxAge_ms_def Let_def)

text \<open>
  Claim C4, amended. When \<open>typeof\<close> of the argument of \<open>update\<close> is neither \<open>"object"\<close> nor
  \<open>"function"\<close> (the argument is undefined, a boolean, a number or a string), the call
  returns a promise that is rejected with the validation error, and the session (its
  cached payload included) and the world (the persisted records of whatever backend the
  session uses) are exactly what they were: no storage operation has been applied.
\<close>

theorem update_validation:
  "typeof_arg arg \<noteq> TObject \<Longrightarrow> typeof_arg arg \<noteq> TFunction \<Longrightarrow>
   SessionImpl_update arg now s w =
     (Returns (Rejected (Error ''store must be a valid object or a function'')), s, w)"
  by (simp add: SessionImpl_update_def)

theorem session_round_trip_witness:
  "typeof demo_payload = TObject
   \<and> fst (SessionImpl_update (ArgValue demo_payload) 1000 (SessionImpl_new ''S'' demo_options) demo_world)
       = Returns (Fulfilled ())
   \<and> store (fst (SessionImpl_init 1801000 (SessionImpl_new ''S'' demo_options)
        (snd (snd (SessionImpl_update (ArgValue demo_payload) 1000
           (SessionImpl_new ''S'' demo_options) demo_world)))))
       = demo_payload"
proof -
  let ?s = "SessionImpl_new ''S'' demo_options"
  let ?u = "SessionImpl_update (ArgValue demo_payload) 1000 ?s demo_world"
  have a: "typeof demo_payload = TObject" by (simp add: demo_payload_def)
  have b: "storage ?s = defaultSessionStorage"
    by (simp add: SessionImpl_new_def demo_options_def)
  have c: "opt_storage demo_options = None" by (simp add: demo_options_def)
  have d: "?u = (fst ?u, fst (snd ?u), snd (snd ?u))" by simp
  have e: "1000 + maxAge_ms ?s \<le> 0 \<or> 1801000 \<le> 1000 + maxAge_ms ?s"
    by (simp add: maxAge_ms_def SessionImpl_new_def demo_options_def)
  have f: "sid ?s = ''S''" by (simp add: SessionImpl_new_def)
  show ?thesis
    using session_round_trip [OF a b c d e] a by (simp add: f)
qed

theorem update_validation_witness:
  "SessionImpl_update (ArgValue (JStr ''forty-two'')) 5 (SessionImpl_new ''S'' demo_options) demo_world =
     (Returns (Rejected (Error ''store must be a valid object or a function'')),
      SessionImpl_new ''S'' demo_options, demo_world)
   \<and> SessionImpl_update (ArgValue JUndefined) 5 (SessionImpl_new ''S'' demo_options) demo_world =
     (Returns (Rejected (Error ''store must be a valid object or a function'')),
      SessionImpl_new ''S'' demo_options, demo_world)"
  using update_validation [of "ArgValue (JStr ''forty-two'')" 5 "SessionImpl_new ''S'' demo_options" demo_world]
        update_validation [of "ArgValue JUndefined" 5 "SessionImpl_new ''S'' demo_options" demo_world]
  by simp

lemma end_unfold:
  "SessionImpl_end now s w =
     (s\<lparr>store := JUndefined\<rparr>,
      if truthy (store s) then w else storage_delete (storage s) now (sid s) w)"
  by (simp add: SessionImpl_end_def)

lemma end_default:
  "storage s = defaultSessionStorage \<Longrightarrow>
   defaultStore (snd (SessionImpl_end now s w)) =
     (if truthy (store s) then defaultStore w else (defaultStore w)(sid s := None))"
  by (simp add: SessionImpl_end_def defaultSessionStorage_def MemorySessionStorage_delete_def)

lemma init_default:
  "storage s = defaultSessionStorage \<Longrightarrow>
   defaultStore (snd (SessionImpl_init now s w)) =
     snd (MemorySessionStorage_get now (sid s) (defaultStore w))"
  by (simp add: SessionImpl_init_def defaultSessionStorage_def split: prod.split)

lemma update_default:
  "storage s = defaultSessionStorage \<Longrightarrow>
   dom (defaultStore w) \<subseteq> dom (defaultStore (snd (snd (SessionImpl_update arg now s w))))"
  by (auto simp add: SessionImpl_update_def defaultSessionStorage_def
        MemorySessionStorage_set_def Let_def)

lemma step_deletion:
  assumes "storage s = defaultSessionStorage"
    and "defaultStore w k = Some r"
    and "defaultStore (snd (session_step op now s w)) k = None"
  shows "k = sid s \<and> ((op = OpEnd \<and> \<not> truthy (store s)) \<or> (op = OpInit \<and> expired now r))"
proof (cases op)
  case OpInit
  with assms have "snd (MemorySessionStorage_get now (sid s) (defaultStore w)) k = None"
    by (simp add: session_step_def init_default)
  with assms(2) show ?thesis
    by (cases r) (auto simp add: OpInit get_store expired_def split: option.splits if_splits)
next
  case (OpUpdate arg)
  with assms(3) have "k \<notin> dom (defaultStore (snd (snd (SessionImpl_update arg now s w))))"
    by (auto simp add: session_step_def)
  with update_default [OF assms(1), of w arg now] assms(2) show ?thesis by auto
next
  case OpEnd
  with assms show ?thesis
    by (auto simp add: session_step_def end_default split: if_splits)
next
  case (OpRedirect url)
  with assms show ?thesis by (simp add: session_step_def)
qed

text \<open>
  Claim C6. \<open>end()\<close> applies the storage's \<open>delete\<close> to the session's id exactly when the
  cached payload is falsy (empty) and leaves the world alone otherwise, and it always
  clears the cache. With the default storage: the record of the id is removed in the
  first case and the map is unchanged in the second; and whenever a step of a session
  (\<open>init\<close>, \<open>update\<close>, \<open>end\<close>, \<open>redirect\<close>) makes a record disappear, the record is the
  session's own and the step is either \<open>end\<close> with an empty cache or an \<open>init\<close> that read
  an expired record.
\<close>

theorem end_deletes_iff_cache_empty:
  "SessionImpl_end now s w =
     (s\<lparr>store := JUndefined\<rparr>,
      if truthy (store s) then w else storage_delete (storage s) now (sid s) w)
   \<and> (storage s = defaultSessionStorage \<longrightarrow>
        defaultStore (snd (SessionImpl_end now s w)) =
          (if truthy (store s) then defaultStore w else (defaultStore w)(sid s := None)))
   \<and> (storage s = defaultSessionStorage \<longrightarrow> defaultStore w k = Some r \<longrightarrow>
        defaultStore (snd (session_step op now s w)) k = None \<longrightarrow>
        k = sid s \<and> ((op = OpEnd \<and> \<not> truthy (store s)) \<or> (op = OpInit \<and> expired now r)))"
  using end_unfold [of now s w] end_default [of s now w] step_deletion [of s w k r op now]
  by blast

theorem end_deletes_iff_cache_empty_witness:
  "defaultStore (snd (SessionImpl_end 7 (SessionImpl_new ''S'' demo_options) demo_stored)) ''S'' = None
   \<and> defaultStore (snd (SessionImpl_end 7
        ((SessionImpl_new ''S'' demo_options)\<lparr>store := demo_payload\<rparr>) demo_stored)) ''S''
       = Some (demo_payload, 0)
   \<and> store (fst (SessionImpl_end 7
        ((SessionImpl_new ''S'' demo_options)\<lparr>store := demo_payload\<rparr>) demo_stored)) = JUndefined
   \<and> defaultStore demo_stored ''S'' = Some (demo_payload, 0)
   \<and> defaultStore (snd (session_step OpEnd 7 (SessionImpl_new ''S'' demo_options) demo_stored)) ''S''
       = None"
proof -
  let ?s = "SessionImpl_new ''S'' demo_options"
  let ?t = "?s\<lparr>store := demo_payload\<rparr>"
  have st: "storage ?s = defaultSessionStorage" "storage ?t = defaultSessionStorage"
    by (simp_all add: SessionImpl_new_def demo_options_def)
  have tr: "\<not> truthy (store ?s)" "truthy (store ?t)" "sid ?s = ''S''" "sid ?t = ''S''"
    by (simp_all add: SessionImpl_new_def demo_payload_def)
  have 1: "defaultStore (snd (SessionImpl_end 7 ?s demo_stored)) =
             (defaultStore demo_stored)(''S'' := None)"
    using end_deletes_iff_cache_empty
            [of 7 ?s demo_stored "''S''" "(demo_payload, 0)" OpEnd, THEN conjunct2, THEN conjunct1]
          st tr
    by simp
  have 2: "SessionImpl_end 7 ?t demo_stored = (?t\<lparr>store := JUndefined\<rparr>, demo_stored)"
    using end_deletes_iff_cache_empty
            [of 7 ?t demo_stored "''S''" "(demo_payload, 0)" OpEnd, THEN conjunct1] tr
    by simp
  show ?thesis by (simp add: 1 2 session_step_def) (simp add: demo_stored_def)
qed

section \<open>Properties of the route matcher\<close>

lemma matchRoute_empty:
  "matchRoute env req ctx [] = ([], Ctx (url_only (req_url req)))"
  by (simp add: matchRoute_def)

lemma matchRoute_head_mismatch:
  "pattern (cleanPath env (pathname (req_url req))) = None \<Longrightarrow>
   matchRoute env req ctx ((pattern, load, meta) # rest) = ([], Ctx (url_only (req_url req)))"
  by (simp add: matchRoute_def)

lemma matchRoute_head_match:
  assumes "pattern (cleanPath env (pathname (req_url req))) = Some ret"
  shows "matchRoute env req ctx ((pattern, Inr m, meta) # rest) =
     (case call_fetchers env req ctx
             (case mod_data m of Some d \<Rightarrow> d | None \<Rightarrow> empty_dataConfig)
             (matched_context env req ret m meta) of
        (tr, out) \<Rightarrow> (LoadCall meta # tr, out))"
  using assms by (simp add: matchRoute_def matched_context_def Let_def)


lemma demo_clean [simp]: "cleanPath demo_env (pathname (req_url demo_request)) = ''/posts/42''"
  by (simp add: demo_env_def demo_request_def)

lemma posts_pattern_42 [simp]:
  "posts_pattern ''/posts/42'' = Some \<lparr> host_groups = [], pathname_groups = [(''id'', ''42'')] \<rparr>"
  by (simp add: posts_pattern_def)

lemma demo_matched_context:
  "matched_context demo_env demo_request \<lparr> host_groups = [], pathname_groups = [(''id'', ''42'')] \<rparr>
     \<lparr> mod_default = ''Post'', mod_data = dco \<rparr> posts_meta =
   posts_context JUndefined (cacheTtl (case dco of Some d \<Rightarrow> d | None \<Rightarrow> empty_dataConfig))"
  by (simp add: matched_context_def posts_context_def posts_url_def demo_env_def demo_request_def
        posts_meta_def)

text \<open>
  Claim C1 says that \<open>matchRoute\<close> walks the table in registration order until the
  first route whose pattern matches and returns a context with that route's filename.
  The code does not: the body of the loop returns at the end of its first iteration.
  For the request \<open>/posts/42\<close> and the table of the index route followed by the posts
  route, exactly one pattern matches (the second entry's), and \<open>matchRoute\<close> returns the
  context that carries only the URL, having called no loader. With the posts route first,
  the same request gives the context with that route's filename and one call of its
  loader.
\<close>

theorem matchRoute_returns_after_first_entry:
  "fst index_route ''/posts/42'' = None
   \<and> fst (posts_route None) ''/posts/42'' \<noteq> None
   \<and> matchRoute demo_env demo_request () [index_route, posts_route None]
       = ([], Ctx (url_only (req_url demo_request)))
   \<and> matchRoute demo_env demo_request () [posts_route None, index_route]
       = ([LoadCall posts_meta], Ctx (posts_context JUndefined JUndefined))"
proof -
  have a: "fst index_route ''/posts/42'' = None" by (simp add: index_route_def)
  have b: "fst (posts_route None) ''/posts/42'' \<noteq> None" by (simp add: posts_route_def)
  have c: "matchRoute demo_env demo_request () [index_route, posts_route None]
       = ([], Ctx (url_only (req_url demo_request)))"
    unfolding index_route_def by (rule matchRoute_head_mismatch) simp
  have "matchRoute demo_env demo_request () [posts_route None, index_route]
       = ([LoadCall posts_meta],
          Ctx (matched_context demo_env demo_request
                 \<lparr> host_groups = [], pathname_groups = [(''id'', ''42'')] \<rparr>
                 \<lparr> mod_default = ''Post'', mod_data = (None :: unit dataConfig option) \<rparr>
                 posts_meta))"
    unfolding posts_route_def
    by (subst matchRoute_head_match
          [where pattern = posts_pattern and env = demo_env and req = demo_request
             and ret = "\<lparr> host_groups = [], pathname_groups = [(''id'', ''42'')] \<rparr>"])
       (simp_all add: call_fetchers_def empty_dataConfig_def)
  then have d: "matchRoute demo_env demo_request () [posts_route None, index_route]
       = ([LoadCall posts_meta], Ctx (posts_context JUndefined JUndefined))"
    by (simp add: demo_matched_context) (simp add: empty_dataConfig_def)
  from a b c d show ?thesis by simp
qed




lemma call_fetcher_data:
  assumes "call_fetcher env g R ctx route = (tr, Ctx c)" and "data route = JUndefined"
    and "data c \<noteq> JUndefined"
  shows "\<exists>res. g R ctx = Inr (IsResponse res) \<and> status res = 200 \<and> json env res = Inr (data c)"
  using assms
  by (auto simp add: call_fetcher_def split: sum.splits fetch_result.splits if_splits)

lemma call_fetchers_data:
  assumes "call_fetchers env req ctx dc route = (tr, Ctx c)" and "data route = JUndefined"
    and "data c \<noteq> JUndefined"
  shows "\<exists>g res. get dc = Some g
           \<and> g (req\<lparr>req_url := ctx_url route\<rparr>) ctx = Inr (IsResponse res)
           \<and> status res = 200 \<and> json env res = Inr (data c)"
proof (cases "get dc")
  case None
  with assms show ?thesis by (simp add: call_fetchers_def)
next
  case (Some g)
  let ?R = "req\<lparr>req_url := ctx_url route\<rparr>"
  have "\<exists>tr'. call_fetcher env g ?R ctx route = (tr', Ctx c)"
    using assms(1) Some
    by (auto simp add: call_fetchers_def Let_def
          split: option.splits sum.splits fetch_result.splits prod.splits)
  then obtain tr' where "call_fetcher env g ?R ctx route = (tr', Ctx c)" ..
  from call_fetcher_data [OF this assms(2,3)] Some show ?thesis by simp
qed

lemma data_source:
  assumes "snd (matchRoute env req ctx table) = Ctx c" and "data c \<noteq> JUndefined"
  shows "\<exists>pattern ret m dc g meta rest res.
           table = (pattern, Inr m, meta) # rest
         \<and> pattern (cleanPath env (pathname (req_url req))) = Some ret
         \<and> mod_data m = Some dc \<and> get dc = Some g
         \<and> g (derived_request env req ret) ctx = Inr (IsResponse res)
         \<and> status res = 200 \<and> json env res = Inr (data c)"
proof (cases table)
  case Nil
  with assms show ?thesis by (auto simp add: matchRoute_empty url_only_def)
next
  case (Cons r rest)
  obtain pattern load meta where r: "r = (pattern, load, meta)" by (cases r)
  let ?p = "cleanPath env (pathname (req_url req))"
  show ?thesis
  proof (cases "pattern ?p")
    case None
    with assms Cons r show ?thesis by (auto simp add: matchRoute_head_mismatch url_only_def)
  next
    case (Some ret)
    show ?thesis
    proof (cases load)
      case (Inl e)
      with assms Cons r Some show ?thesis by (auto simp add: matchRoute_def)
    next
      case (Inr m)
      let ?dc = "case mod_data m of Some d \<Rightarrow> d | None \<Rightarrow> empty_dataConfig"
      let ?route = "matched_context env req ret m meta"
      obtain tr out where cf: "call_fetchers env req ctx ?dc ?route = (tr, out)"
        by (cases "call_fetchers env req ctx ?dc ?route")
      have "matchRoute env req ctx table = (LoadCall meta # tr, out)"
        using matchRoute_head_match [where pattern = pattern and env = env and req = req and ret = ret,
                OF Some, of ctx m meta rest] cf
        by (simp add: Cons r Inr)
      with assms(1) have out: "out = Ctx c" by simp
      have und: "data ?route = JUndefined" by (simp add: matched_context_def)
      from call_fetchers_data [OF cf [unfolded out] und assms(2)]
      obtain g res where g: "get ?dc = Some g"
        and res: "g (req\<lparr>req_url := ctx_url ?route\<rparr>) ctx = Inr (IsResponse res)"
                 "status res = 200" "json env res = Inr (data c)"
        by blast
      from g obtain dc where dc: "mod_data m = Some dc"
        by (cases "mod_data m") (simp_all add: empty_dataConfig_def)
      have R: "req\<lparr>req_url := ctx_url ?route\<rparr> = derived_request env req ret"
        by (simp add: matched_context_def derived_request_def)
      from g dc res R Some Cons r Inr show ?thesis by auto
    qed
  qed
qed

lemma get_outcome:
  assumes "pattern (cleanPath env (pathname (req_url req))) = Some ret"
    and "mod_data m = Some dc" and "get dc = Some g"
    and "all dc = None \<or> (\<exists>a w. all dc = Some a \<and> a (derived_request env req ret) = Inr (NotResponse w))"
  shows "snd (matchRoute env req ctx ((pattern, Inr m, meta) # rest)) =
     (case g (derived_request env req ret) ctx of
        Inl e \<Rightarrow> Thrown e
      | Inr (NotResponse v) \<Rightarrow> Ctx (matched_context env req ret m meta)
      | Inr (IsResponse res) \<Rightarrow>
          if status res \<noteq> 200 then Resp res
          else (case json env res of
                  Inl e \<Rightarrow> Thrown e
                | Inr v \<Rightarrow> Ctx ((matched_context env req ret m meta)\<lparr>data := v\<rparr>)))"
proof -
  have R: "req\<lparr>req_url := ctx_url (matched_context env req ret m meta)\<rparr> = derived_request env req ret"
    by (simp add: matched_context_def derived_request_def)
  from assms(4) show ?thesis
  proof
    assume "all dc = None"
    with assms(1-3) show ?thesis
      by (simp add: matchRoute_head_match [where pattern = pattern and env = env and req = req and ret = ret]
            call_fetchers_def call_fetcher_def R Let_def
            split: sum.split fetch_result.split prod.split)
  next
    assume "\<exists>a w. all dc = Some a \<and> a (derived_request env req ret) = Inr (NotResponse w)"
    then obtain a w where "all dc = Some a" "a (derived_request env req ret) = Inr (NotResponse w)"
      by blast
    with assms(1-3) show ?thesis
      by (simp add: matchRoute_head_match [where pattern = pattern and env = env and req = req and ret = ret]
            call_fetchers_def call_fetcher_def R Let_def
            split: sum.split fetch_result.split prod.split)
  qed
qed

text \<open>
  Claim C10. For a matching first entry whose data-loader object exposes \<open>get\<close> (and
  whose \<open>all\<close>, if any, returned no \<open>Response\<close>): when \<open>get\<close> returns a value that is not a
  \<open>Response\<close>, the result is the context as built before the fetch, whose data payload is
  undefined; a \<open>Response\<close> with another status than 200 is returned as it is; a \<open>Response\<close>
  with status 200 has its body parsed as JSON and attached as the data payload.
  Conversely, for any table, a returned context carries a data payload only if \<open>get\<close> of
  the matching first entry returned a \<open>Response\<close> with status 200 whose parsed body is
  that payload.
\<close>

theorem data_only_from_ok_response:
  "(pattern (cleanPath env (pathname (req_url req))) = Some ret \<and> mod_data m = Some dc
      \<and> get dc = Some g
      \<and> (all dc = None
           \<or> (\<exists>a w. all dc = Some a \<and> a (derived_request env req ret) = Inr (NotResponse w)))
     \<longrightarrow> snd (matchRoute env req ctx ((pattern, Inr m, meta) # rest)) =
          (case g (derived_request env req ret) ctx of
             Inl e \<Rightarrow> Thrown e
           | Inr (NotResponse v) \<Rightarrow> Ctx (matched_context env req ret m meta)
           | Inr (IsResponse res) \<Rightarrow>
               if status res \<noteq> 200 then Resp res
               else (case json env res of
                       Inl e \<Rightarrow> Thrown e
                     | Inr v \<Rightarrow> Ctx ((matched_context env req ret m meta)\<lparr>data := v\<rparr>))))
   \<and> data (matched_context env req ret m meta) = JUndefined
   \<and> (\<forall>c. snd (matchRoute env req ctx table) = Ctx c \<longrightarrow> data c \<noteq> JUndefined \<longrightarrow>
        (\<exists>pattern ret m dc g meta rest res.
            table = (pattern, Inr m, meta) # rest
          \<and> pattern (cleanPath env (pathname (req_url req))) = Some ret
          \<and> mod_data m = Some dc \<and> get dc = Some g
          \<and> g (derived_request env req ret) ctx = Inr (IsResponse res)
          \<and> status res = 200 \<and> json env res = Inr (data c)))"
proof -
  have "data (matched_context env req ret m meta) = JUndefined"
    by (simp add: matched_context_def)
  then show ?thesis
    using get_outcome [of pattern env req ret m dc g ctx meta rest]
          data_source [of env req ctx table]
    by blast
qed

theorem data_only_from_ok_response_witness:
  \<open>snd (matchRoute demo_env demo_request () [posts_route (Some plain_loader)])
     = Ctx (posts_context JUndefined JUndefined)
   \<and> snd (matchRoute demo_env demo_request ()
           [posts_route (Some (response_loader ''{"title":"Hi"}'' (JNum 60)))])
     = Ctx (posts_context (JObj [(''title'', JStr ''Hi'')]) (JNum 60))\<close>
proof -
  let ?ret = "\<lparr> host_groups = [], pathname_groups = [(''id'', ''42'')] \<rparr>"
  have p: "posts_pattern (cleanPath demo_env (pathname (req_url demo_request))) = Some ?ret" by simp
  have 1: "snd (matchRoute demo_env demo_request () [posts_route (Some plain_loader)])
     = Ctx (matched_context demo_env demo_request ?ret
              \<lparr> mod_default = ''Post'', mod_data = Some plain_loader \<rparr> posts_meta)"
    using data_only_from_ok_response
            [where pattern = posts_pattern and env = demo_env and req = demo_request and ret = ?ret
               and m = "\<lparr> mod_default = ''Post'', mod_data = Some plain_loader \<rparr>"
               and dc = plain_loader
               and g = "\<lambda>r c. Inr (NotResponse (JObj [(''title'', JStr ''Hi'')]))"
               and ctx = "()" and meta = posts_meta and rest = "[]", THEN conjunct1]
          p
    by (simp add: posts_route_def plain_loader_def)
  let ?dc = \<open>response_loader ''{"title":"Hi"}'' (JNum 60)\<close>
  have 2: "snd (matchRoute demo_env demo_request () [posts_route (Some ?dc)])
     = Ctx ((matched_context demo_env demo_request ?ret
              \<lparr> mod_default = ''Post'', mod_data = Some ?dc \<rparr> posts_meta)
            \<lparr>data := JObj [(''title'', JStr ''Hi'')]\<rparr>)"
    using data_only_from_ok_response
            [where pattern = posts_pattern and env = demo_env and req = demo_request and ret = ?ret
               and m = "\<lparr> mod_default = ''Post'', mod_data = Some ?dc \<rparr>"
               and dc = ?dc
               and g = \<open>\<lambda>r c. Inr (IsResponse (json_response ''{"title":"Hi"}''))\<close>
               and ctx = "()" and meta = posts_meta and rest = "[]", THEN conjunct1]
          p
    by (simp add: posts_route_def response_loader_def json_response_def demo_env_def)
  show ?thesis
    by (simp add: 1 2 demo_matched_context)
       (simp add: posts_context_def plain_loader_def response_loader_def)
qed

section \<open>Properties of the rewriter\<close>

lemma foldl_before:
  "foldl (\<lambda>e tag. el_before tag e) el tags = el\<lparr>content_before := content_before el @ concat tags\<rparr>"
  by (induction tags arbitrary: el) (simp_all add: el_before_def)

lemma ssr_head_handler_result:
  "ssr_head_handler P heads route st (new_element tag attrs) =
     ((new_element tag attrs)\<lparr>content_before := head_insertion P heads route, removed := True\<rparr>, st)"
  unfolding ssr_head_handler_def foldl_before
  by (simp add: head_insertion_def el_before_def el_remove_def new_element_def Let_def
        split: option.split)


lemma dispatch_ssr_body:
  "dispatch (ssr_regs P heads route markup @ common_regs P rs dev) st (new_element ''ssr-body'' attrs) =
     ((new_element ''ssr-body'' attrs)\<lparr>replacement := markup, removed := True\<rparr>, st)"
  by (simp add: ssr_regs_def common_regs_def ssr_body_handler_def el_replace_def new_element_def)

lemma dispatch_other:
  "tag \<noteq> ''ssr-head'' \<Longrightarrow> tag \<noteq> ''ssr-body'' \<Longrightarrow>
   dispatch (ssr_regs P heads route markup @ rest) st (new_element tag attrs) =
   dispatch rest st (new_element tag attrs)"
  by (simp add: ssr_regs_def new_element_def)



lemma fetch_ssr:
  assumes "ssrHandler opts = Some h"
    and "snd (matchRoute env req ctx (routes opts)) = Ctx route"
    and "h route = Inr (Some markup, heads)"
  shows "fetch env P req ctx opts =
     finish P opts
       [(''Content-Type'', ''text/html; charset=utf-8''),
        (''Cache-Control'', cache_control P (dataExpires route))]
       (ssr_regs P heads route markup)"
  using assms by (simp add: fetch_def)








section \<open>Properties of the renderer\<close>

lemma demo_match_response:
  \<open>snd (matchRoute demo_env demo_request () [posts_route (Some (response_loader ''{"title":"Hi"}'' ttl))])
     = Ctx (posts_context (JObj [(''title'', JStr ''Hi'')]) ttl)\<close>
proof -
  let ?ret = "\<lparr> host_groups = [], pathname_groups = [(''id'', ''42'')] \<rparr>"
  let ?dc = \<open>response_loader ''{"title":"Hi"}'' ttl\<close>
  have p: "posts_pattern (cleanPath demo_env (pathname (req_url demo_request))) = Some ?ret" by simp
  have "snd (matchRoute demo_env demo_request () [posts_route (Some ?dc)])
     = Ctx ((matched_context demo_env demo_request ?ret
              \<lparr> mod_default = ''Post'', mod_data = Some ?dc \<rparr> posts_meta)
            \<lparr>data := JObj [(''title'', JStr ''Hi'')]\<rparr>)"
    using get_outcome
            [where pattern = posts_pattern and env = demo_env and req = demo_request and ret = ?ret
               and m = "\<lparr> mod_default = ''Post'', mod_data = Some ?dc \<rparr>"
               and dc = ?dc
               and g = \<open>\<lambda>r c. Inr (IsResponse (json_response ''{"title":"Hi"}''))\<close>
               and ctx = "()" and meta = posts_meta and rest = "[]"]
          p
    by (simp add: posts_route_def response_loader_def json_response_def demo_env_def)
  then show ?thesis
    by (simp add: demo_matched_context) (simp add: posts_context_def response_loader_def)
qed

lemma demo_match_zero:
  \<open>snd (matchRoute demo_env demo_request () [posts_route (Some (response_loader ''0'' ttl))])
     = Ctx (posts_context (JNum 0) ttl)\<close>
proof -
  let ?ret = "\<lparr> host_groups = [], pathname_groups = [(''id'', ''42'')] \<rparr>"
  let ?dc = \<open>response_loader ''0'' ttl\<close>
  have p: "posts_pattern (cleanPath demo_env (pathname (req_url demo_request))) = Some ?ret" by simp
  have "snd (matchRoute demo_env demo_request () [posts_route (Some ?dc)])
     = Ctx ((matched_context demo_env demo_request ?ret
              \<lparr> mod_default = ''Post'', mod_data = Some ?dc \<rparr> posts_meta)
            \<lparr>data := JNum 0\<rparr>)"
    using get_outcome
            [where pattern = posts_pattern and env = demo_env and req = demo_request and ret = ?ret
               and m = "\<lparr> mod_default = ''Post'', mod_data = Some ?dc \<rparr>"
               and dc = ?dc
               and g = \<open>\<lambda>r c. Inr (IsResponse (json_response ''0''))\<close>
               and ctx = "()" and meta = posts_meta and rest = "[]"]
          p
    by (simp add: posts_route_def response_loader_def json_response_def demo_env_def)
  then show ?thesis
    by (simp add: demo_matched_context) (simp add: posts_context_def response_loader_def)
qed


text \<open>
  The handlers run inside a replaced marker: a module script in the content of the body
  marker sets the flag of \<open>scriptHandler\<close>, so a later module script gets no fallback
  script, and nothing of the marker's content is emitted.
\<close>

lemma script_dispatch:
  \<open>dispatch (ssr_regs P heads route markup @ common_regs P rs dev) st
       (new_element ''script'' [(''type'', ''module'')]) =
     (if nomoduleInserted st then (new_element ''script'' [(''type'', ''module'')], st)
      else ((new_element ''script'' [(''type'', ''module'')])
               \<lparr>content_after := ''<script nomodule src="'' @ alephPkgUri P
                                   @ ''lib/nomodule.js"></script>''\<rparr>,
            st\<lparr>nomoduleInserted := True\<rparr>))\<close>
  by (simp add: dispatch_other)
     (simp add: common_regs_def new_element_def scriptHandler_def getAttribute_def el_after_def
        Let_def)

lemma handlers_run_inside_marker:
  \<open>fst (rewrite_nodes (ssr_regs P heads route markup @ common_regs P rs dev) initial_state
          [Element ''ssr-body'' [] [Element ''script'' [(''type'', ''module'')] []],
           Element ''script'' [(''type'', ''module'')] []])
     = markup @ ''<script type="module"></script>''\<close>
  by (simp add: dispatch_ssr_body script_dispatch initial_state_def)
     (simp add: new_element_def start_tag_def end_tag_def void_tags_def)

text \<open>
  Claim C8. When the SSR callback is present, \<open>matchRoute\<close> returned a context and the
  callback returned a markup string, the response has status 200, its Content-Type is
  \<open>text/html; charset=utf-8\<close>, and its only other header is Cache-Control:
  \<open>public, max-age=n\<close> when the context's cache-expiry duration is the number \<open>n\<close>, and
  \<open>public, max-age=0, must-revalidate\<close> when it is not a number.
\<close>

theorem ssr_path_headers:
  assumes "ssrHandler opts = Some h"
    and "snd (matchRoute env req ctx (routes opts)) = Ctx route"
    and "h route = Inr (Some ssrOutput, headCollection)"
  shows "status (fetch env P req ctx opts) = 200
     \<and> map_of (headers (fetch env P req ctx opts)) ''Content-Type'' = Some ''text/html; charset=utf-8''
     \<and> (\<forall>n. dataExpires route = JNum n \<longrightarrow>
           headers (fetch env P req ctx opts) =
             [(''Content-Type'', ''text/html; charset=utf-8''),
              (''Cache-Control'', ''public, max-age='' @ number_toString P n)])
     \<and> ((\<forall>n. dataExpires route \<noteq> JNum n) \<longrightarrow>
           headers (fetch env P req ctx opts) =
             [(''Content-Type'', ''text/html; charset=utf-8''),
              (''Cache-Control'', ''public, max-age=0, must-revalidate'')])"
proof -
  have "(\<forall>n. dataExpires route \<noteq> JNum n) \<Longrightarrow>
        cache_control P (dataExpires route) = ''public, max-age=0, must-revalidate''"
    by (cases "dataExpires route") (simp_all add: cache_control_def)
  then show ?thesis
    by (auto simp add: fetch_ssr [OF assms] finish_def cache_control_def)
qed

theorem ssr_path_headers_witness:
  \<open>headers (fetch demo_env demo_platform demo_request ()
              (render_options (response_loader ''{"title":"Hi"}'' (JNum 60))))
     = [(''Content-Type'', ''text/html; charset=utf-8''), (''Cache-Control'', ''public, max-age=60'')]
   \<and> headers (fetch demo_env demo_platform demo_request ()
              (render_options (response_loader ''{"title":"Hi"}'' (JStr ''60''))))
     = [(''Content-Type'', ''text/html; charset=utf-8''),
        (''Cache-Control'', ''public, max-age=0, must-revalidate'')]\<close>
proof -
  let ?h = "\<lambda>r :: string RouteContext. Inr (Some ''<article>Hi</article>'', [''<title>Hi</title>''])
              :: error + string option \<times> string list"
  have h: "ssrHandler (render_options dc) = Some ?h" for dc
    by (simp add: render_options_def)
  have m: \<open>snd (matchRoute demo_env demo_request ()
                  (routes (render_options (response_loader ''{"title":"Hi"}'' ttl))))
     = Ctx (posts_context (JObj [(''title'', JStr ''Hi'')]) ttl)\<close> for ttl
    by (simp add: render_options_def demo_match_response)
  have r: "?h route = Inr (Some ''<article>Hi</article>'', [''<title>Hi</title>''])" for route
    by simp
  have n: "number_toString demo_platform 60 = ''60''"
    by (simp add: demo_platform_def demo_number_def decimal.simps)
  show ?thesis
    using ssr_path_headers [OF h m [of "JNum 60"] r, where P = demo_platform]
          ssr_path_headers [OF h m [of "JStr ''60''"] r, where P = demo_platform]
    by (simp add: posts_context_def n)
qed

text \<open>
  Claim C9, as stated, fails for a payload that is present and falsy. A loader whose
  \<open>get\<close> returns a 200 response with body \<open>0\<close> and whose \<open>cacheTtl\<close> is 60 gives the context
  the payload \<open>0\<close> and the truthy duration 60; the handler tests \<open>if (route.data)\<close> and
  inserts the module script only: no data script, and so no \<open>data-expires\<close> attribute.
\<close>

theorem falsy_payload_no_expiry_counterexample:
  \<open>snd (matchRoute demo_env demo_request () [posts_route (Some (response_loader ''0'' (JNum 60)))])
     = Ctx (posts_context (JNum 0) (JNum 60))
   \<and> data (posts_context (JNum 0) (JNum 60)) \<noteq> JUndefined
   \<and> truthy (dataExpires (posts_context (JNum 0) (JNum 60)))
   \<and> content_before (fst (ssr_head_handler demo_platform [] (posts_context (JNum 0) (JNum 60))
          initial_state (new_element ''ssr-head'' [])))
     = ''<script type="module">import e from "./routes/posts/$id.tsx";window.__ssrModuleDefaultExport=e;</script>''\<close>
proof -
  have \<open>content_before (fst (ssr_head_handler demo_platform [] (posts_context (JNum 0) (JNum 60))
          initial_state (new_element ''ssr-head'' [])))
     = ''<script type="module">import e from "./routes/posts/$id.tsx";window.__ssrModuleDefaultExport=e;</script>''\<close>
    by (simp add: ssr_head_handler_result head_insertion_def posts_context_def module_script_def
          demo_platform_def)
  then show ?thesis
    by (simp add: demo_match_zero) (simp add: posts_context_def)
qed

text \<open>
  Claim C9, amended. What the head-marker handler inserts before the marker is the head
  fragments in order, then, when the data payload is truthy, the JSON script element,
  then the module script when there is a filename. For a truthy payload, the script
  element's start tag carries the attribute \<open>data-expires="route.dataExpires"\<close> (that
  literal text, whatever the duration is) exactly when the cache-expiry duration is
  truthy; when the duration is 0 or absent, the start tag has no expiry attribute. For
  a falsy payload (undefined, null, false, 0 or the empty string) no data script is
  inserted.
\<close>

theorem data_expires_literal:
  \<open>content_before (fst (ssr_head_handler P headCollection route st (new_element tag attrs))) =
     concat headCollection
       @ (if truthy (data route)
          then ''<script id="aleph-ssr-data" type="application/json"''
                 @ (if truthy (dataExpires route) then '' data-expires="route.dataExpires"'' else [])
                 @ ''>'' @ JSON_stringify P (data route) @ ''</script>''
          else [])
       @ (case filename route of
            None \<Rightarrow> []
          | Some f \<Rightarrow> if f \<noteq> [] then module_script P f else [])\<close>
  by (simp add: ssr_head_handler_result head_insertion_def data_script_def expiresAttr_def)

theorem data_expires_literal_witness:
  \<open>content_before (fst (ssr_head_handler demo_platform []
       ((posts_context (JObj [(''title'', JStr ''Hi'')]) (JNum 60))\<lparr>filename := None\<rparr>)
       initial_state (new_element ''ssr-head'' [])))
     = ''<script id="aleph-ssr-data" type="application/json" data-expires="route.dataExpires">{"title":"Hi"}</script>''
   \<and> content_before (fst (ssr_head_handler demo_platform []
       ((posts_context (JObj [(''title'', JStr ''Hi'')]) (JNum 3600))\<lparr>filename := None\<rparr>)
       initial_state (new_element ''ssr-head'' [])))
     = ''<script id="aleph-ssr-data" type="application/json" data-expires="route.dataExpires">{"title":"Hi"}</script>''
   \<and> content_before (fst (ssr_head_handler demo_platform []
       ((posts_context (JObj [(''title'', JStr ''Hi'')]) (JNum 0))\<lparr>filename := None\<rparr>)
       initial_state (new_element ''ssr-head'' [])))
     = ''<script id="aleph-ssr-data" type="application/json">{"title":"Hi"}</script>''\<close>
  using data_expires_literal
          [of demo_platform "[]"
              "(posts_context (JObj [(''title'', JStr ''Hi'')]) (JNum 60))\<lparr>filename := None\<rparr>"
              initial_state "''ssr-head''" "[]"]
        data_expires_literal
          [of demo_platform "[]"
              "(posts_context (JObj [(''title'', JStr ''Hi'')]) (JNum 3600))\<lparr>filename := None\<rparr>"
              initial_state "''ssr-head''" "[]"]
        data_expires_literal
          [of demo_platform "[]"
              "(posts_context (JObj [(''title'', JStr ''Hi'')]) (JNum 0))\<lparr>filename := None\<rparr>"
              initial_state "''ssr-head''" "[]"]
  by (simp add: posts_context_def demo_platform_def)









end
